theory Spec2Isabelle
  imports Complex_Main "HOL-Library.Sublist"
begin

section \<open>Records of the in-memory application state\<close>

text \<open>
  The application keeps its state in the dictionaries of \<^verbatim>\<open>AppState\<close>
  (\<^verbatim>\<open>app/dependencies.py\<close>). Each dictionary is a map from an id to a record; a
  key of a Python dict that may be absent (it is read with \<^verbatim>\<open>.get\<close>) is an
  \<open>option\<close> field, \<open>None\<close> standing for the absent key.
\<close>

record bounds =
  north :: real
  south :: real
  east :: real
  west :: real

record viz_record =
  viz_file_path :: string
  viz_tileset_id :: string
  viz_requested_format :: "string option"
  viz_status :: "string option"
  viz_error :: "string option"
  viz_warning :: "string option"
  viz_format :: "string option"
  viz_actual_format :: "string option"
  viz_mapbox_tileset :: "string option"
  viz_source_layer :: "string option"
  viz_recipe_id :: "string option"
  viz_publish_job_id :: "string option"
  viz_format_fallback :: bool
  viz_use_client_animation :: bool
  viz_wind_components :: "(string \<times> string) option"
  viz_bounds :: "bounds option"
  viz_center :: "real list option"
  viz_zoom :: "int option"
  viz_batch_id :: "string option"

record session_record =
  ses_file_path :: string
  ses_bounds :: "bounds option"
  ses_center :: "real list option"
  ses_zoom :: "int option"
  ses_batch_id :: "string option"

record file_record =
  fr_filename :: string
  fr_original_filename :: string
  fr_file_path :: string
  fr_tileset_id :: "string option"
  fr_processing_status :: string
  fr_error :: "string option"
  fr_batch_id :: "string option"

text \<open>One entry of a Batch Record's \<^verbatim>\<open>files\<close> list.\<close>

record batch_file =
  bf_filename :: string
  bf_job_id :: "string option"
  bf_success :: bool
  bf_status :: "string option"
  bf_error :: "string option"
  bf_tileset_id :: "string option"

record batch_record =
  batch_id :: "string option"
  total_files :: nat
  processed_files :: nat
  batch_status :: string
  files :: "batch_file list"
  errors :: "(string \<times> string) list"
  completed_files :: "nat option"
  failed_files :: "nat option"
  processing_files :: "nat option"

record app_state =
  active_visualizations :: "string \<rightharpoonup> viz_record"
  active_sessions :: "string \<rightharpoonup> session_record"
  batch_jobs :: "string \<rightharpoonup> batch_record"
  uploaded_files :: "string \<rightharpoonup> file_record"
  upload_dir :: "string set"
  recipe_dir :: "string set"

datatype http_error = HTTPException nat string

section \<open>Batch status on read (\<^verbatim>\<open>app/api/batch.py\<close>)\<close>

text \<open>
  The loop of \<^verbatim>\<open>get_batch_status\<close> over \<^verbatim>\<open>batch_info['files']\<close>: the three
  counters \<open>(completed, failed, processing)\<close> are threaded through. An entry whose job id
  is not a key of \<^verbatim>\<open>active_visualizations\<close> changes no counter; a record without a
  \<^verbatim>\<open>status\<close> key reads as \<^verbatim>\<open>'processing'\<close>.
\<close>

fun count_statuses ::
  "(string \<rightharpoonup> viz_record) \<Rightarrow> batch_file list \<Rightarrow> nat \<times> nat \<times> nat \<Rightarrow> nat \<times> nat \<times> nat" where
  "count_statuses viz [] acc = acc"
| "count_statuses viz (file_info # rest) (completed, failed, processing) =
     (case bf_job_id file_info of
        None \<Rightarrow> count_statuses viz rest (completed, failed, processing)
      | Some job_id \<Rightarrow>
          (case viz job_id of
             None \<Rightarrow> count_statuses viz rest (completed, failed, processing)
           | Some v \<Rightarrow>
               (let status = (case viz_status v of None \<Rightarrow> ''processing'' | Some s \<Rightarrow> s) in
                if status = ''completed'' then count_statuses viz rest (completed + 1, failed, processing)
                else if status = ''failed'' then count_statuses viz rest (completed, failed + 1, processing)
                else count_statuses viz rest (completed, failed, processing + 1))))"

definition get_batch_status :: "app_state \<Rightarrow> string \<Rightarrow> http_error + (batch_record \<times> app_state)" where
  "get_batch_status st bid =
     (case batch_jobs st bid of
        None \<Rightarrow> Inl (HTTPException 404 ''Batch job not found'')
      | Some batch_info \<Rightarrow>
          (case count_statuses (active_visualizations st) (files batch_info) (0, 0, 0) of
             (completed, failed, processing) \<Rightarrow>
               (let status =
                      (if processing > 0 then ''processing''
                       else if failed = length (files batch_info) then ''failed''
                       else if completed = length (files batch_info) then ''completed''
                       else ''partial'');
                    batch_info' = batch_info
                      \<lparr>batch_status := status,
                       completed_files := Some completed,
                       failed_files := Some failed,
                       processing_files := Some processing\<rparr>
                in Inr (batch_info', st\<lparr>batch_jobs := (batch_jobs st)(bid \<mapsto> batch_info')\<rparr>))))"

text \<open>
  The current status of a batch file entry, as the loop reads it: \<open>None\<close> when the entry
  has no job id or the job id has no Visualization Record.
\<close>

definition current_status :: "(string \<rightharpoonup> viz_record) \<Rightarrow> batch_file \<Rightarrow> string option" where
  "current_status viz file_info =
     (case bf_job_id file_info of
        None \<Rightarrow> None
      | Some job_id \<Rightarrow>
          (case viz job_id of
             None \<Rightarrow> None
           | Some v \<Rightarrow> Some (case viz_status v of None \<Rightarrow> ''processing'' | Some s \<Rightarrow> s)))"

text \<open>
  The aggregation rule in the words of the specification, read in its order: all failed
  gives \<open>failed\<close>; all completed gives \<open>completed\<close>; any still processing gives
  \<open>processing\<close>; otherwise \<open>partial\<close>.
\<close>

definition aggregate_status_rule :: "string list \<Rightarrow> string" where
  "aggregate_status_rule sts =
     (if list_all (\<lambda>s. s = ''failed'') sts then ''failed''
      else if list_all (\<lambda>s. s = ''completed'') sts then ''completed''
      else if list_ex (\<lambda>s. s = ''processing'') sts then ''processing''
      else ''partial'')"

definition status_domain :: "string set" where
  "status_domain = {''processing'', ''completed'', ''failed''}"

text \<open>Example state: one batch of three files with given per-file statuses.\<close>

definition ex_viz :: "string \<Rightarrow> viz_record" where
  "ex_viz s =
     \<lparr>viz_file_path = ''uploads/f.nc'', viz_tileset_id = ''wx_f_01011200'',
      viz_requested_format = Some ''vector'', viz_status = Some s, viz_error = None,
      viz_warning = None, viz_format = None, viz_actual_format = None,
      viz_mapbox_tileset = None, viz_source_layer = None, viz_recipe_id = None,
      viz_publish_job_id = None, viz_format_fallback = False,
      viz_use_client_animation = False, viz_wind_components = None, viz_bounds = None,
      viz_center = None, viz_zoom = None, viz_batch_id = Some ''b1''\<rparr>"

definition ex_entry :: "string \<Rightarrow> batch_file" where
  "ex_entry j =
     \<lparr>bf_filename = ''f.nc'', bf_job_id = Some j, bf_success = True,
      bf_status = Some ''processing'', bf_error = None, bf_tileset_id = None\<rparr>"

definition ex_batch :: "batch_file list \<Rightarrow> batch_record" where
  "ex_batch fs =
     \<lparr>batch_id = Some ''b1'', total_files = length fs, processed_files = length fs,
      batch_status = ''completed'', files = fs, errors = [],
      completed_files = None, failed_files = None, processing_files = None\<rparr>"

definition ex_state :: "string \<Rightarrow> string \<Rightarrow> string \<Rightarrow> app_state" where
  "ex_state s1 s2 s3 =
     \<lparr>active_visualizations =
        [''j1'' \<mapsto> ex_viz s1, ''j2'' \<mapsto> ex_viz s2, ''j3'' \<mapsto> ex_viz s3],
      active_sessions = Map.empty,
      batch_jobs = [''b1'' \<mapsto> ex_batch [ex_entry ''j1'', ex_entry ''j2'', ex_entry ''j3'']],
      uploaded_files = Map.empty,
      upload_dir = {}, recipe_dir = {}\<rparr>"

text \<open>A batch whose two entries have no Visualization Record, and an empty batch.\<close>

definition ex_state_orphans :: app_state where
  "ex_state_orphans =
     \<lparr>active_visualizations = Map.empty,
      active_sessions = Map.empty,
      batch_jobs = [''b1'' \<mapsto> ex_batch [ex_entry ''j1'', ex_entry ''j2''], ''b0'' \<mapsto> ex_batch []],
      uploaded_files = Map.empty,
      upload_dir = {}, recipe_dir = {}\<rparr>"

section \<open>Python strings\<close>

text \<open>
  A Python \<^verbatim>\<open>str\<close> is a sequence of code points. The model covers the code points
  below 256 (ASCII and Latin-1), one \<^typ>\<open>char\<close> each, with \<^verbatim>\<open>str.lower\<close> and
  \<^verbatim>\<open>str.isalnum\<close> as Python defines them on that range: the letters of Latin-1
  beyond ASCII are alphanumeric, and so are the superscript digits and the vulgar fractions.
\<close>

definition py_lower :: "char \<Rightarrow> char" where
  "py_lower c =
     (let n = (of_char c :: nat) in
      if (65 \<le> n \<and> n \<le> 90) \<or> (192 \<le> n \<and> n \<le> 222 \<and> n \<noteq> 215)
      then char_of (n + 32) else c)"

definition str_lower :: "string \<Rightarrow> string" where
  "str_lower s = map py_lower s"

definition py_isalnum :: "char \<Rightarrow> bool" where
  "py_isalnum c =
     (let n = (of_char c :: nat) in
      (48 \<le> n \<and> n \<le> 57) \<or> (65 \<le> n \<and> n \<le> 90) \<or> (97 \<le> n \<and> n \<le> 122) \<or>
      n = 170 \<or> n = 178 \<or> n = 179 \<or> n = 181 \<or> n = 185 \<or> n = 186 \<or>
      (188 \<le> n \<and> n \<le> 190) \<or> (192 \<le> n \<and> n \<noteq> 215 \<and> n \<noteq> 247))"

text \<open>\<^verbatim>\<open>p in s\<close> for strings: \<open>p\<close> occurs in \<open>s\<close> as a contiguous substring.\<close>

fun str_contains :: "string \<Rightarrow> string \<Rightarrow> bool" where
  "str_contains [] p = (p = [])"
| "str_contains (c # cs) p = (prefix p (c # cs) \<or> str_contains cs p)"

section \<open>Geodata extraction (\<^verbatim>\<open>app/core/wind_analyzer.py\<close>, \<^verbatim>\<open>app/core/netcdf_processor.py\<close>)\<close>

text \<open>
  What the extraction reads of an opened dataset: the names of its data variables in
  their order, and its coordinate arrays by name (the values flattened). Floats are read
  as real numbers: rounding and not-a-number values are outside the model.
\<close>

record dataset =
  data_vars :: "string list"
  coords :: "string \<rightharpoonup> real list"




text \<open>Truthiness of an optional string: \<^verbatim>\<open>None\<close> and the empty string are false.\<close>

definition truthy :: "string option \<Rightarrow> bool" where
  "truthy x = (case x of None \<Rightarrow> False | Some s \<Rightarrow> s \<noteq> [])"





definition lat_names :: "string list" where
  "lat_names = [''lat'', ''latitude'', ''y'', ''Y'']"

definition lon_names :: "string list" where
  "lon_names = [''lon'', ''longitude'', ''x'', ''X'']"

text \<open>
  \<^verbatim>\<open>for name in names: if name in ds.coords: coord = ds.coords[name]; break\<close>
\<close>

fun find_coord :: "string list \<Rightarrow> (string \<rightharpoonup> real list) \<Rightarrow> real list option" where
  "find_coord [] cs = None"
| "find_coord (name # names) cs =
     (case cs name of Some c \<Rightarrow> Some c | None \<Rightarrow> find_coord names cs)"

text \<open>
  \<^verbatim>\<open>float(coord.max())\<close> and \<^verbatim>\<open>float(coord.min())\<close>: the reduction of an array of
  no elements raises \<^verbatim>\<open>ValueError\<close>.
\<close>

datatype py_exception = ValueError | KeyError string | IndexError

fun array_max :: "real list \<Rightarrow> py_exception + real" where
  "array_max [] = Inl ValueError"
| "array_max (x # xs) = Inr (foldl max x xs)"

fun array_min :: "real list \<Rightarrow> py_exception + real" where
  "array_min [] = Inl ValueError"
| "array_min (x # xs) = Inr (foldl min x xs)"

text \<open>The body of the \<^verbatim>\<open>try\<close> of \<^verbatim>\<open>get_dataset_bounds\<close>.\<close>

definition dataset_bounds_body :: "dataset \<Rightarrow> py_exception + bounds option" where
  "dataset_bounds_body ds =
     (let lat_coord = find_coord lat_names (coords ds);
          lon_coord = find_coord lon_names (coords ds)
      in case (lat_coord, lon_coord) of
           (Some lat, Some lon) \<Rightarrow>
             (case array_max lat of Inl e \<Rightarrow> Inl e | Inr n \<Rightarrow>
              case array_min lat of Inl e \<Rightarrow> Inl e | Inr s \<Rightarrow>
              case array_max lon of Inl e \<Rightarrow> Inl e | Inr e \<Rightarrow>
              case array_min lon of Inl e \<Rightarrow> Inl e | Inr w \<Rightarrow>
                Inr (Some \<lparr>north = n, south = s, east = e, west = w\<rparr>))
         | _ \<Rightarrow> Inr None)"

text \<open>\<^verbatim>\<open>except: pass\<close>, then \<^verbatim>\<open>return None\<close>.\<close>

definition get_dataset_bounds :: "dataset \<Rightarrow> bounds option" where
  "get_dataset_bounds ds = (case dataset_bounds_body ds of Inl e \<Rightarrow> None | Inr r \<Rightarrow> r)"


text \<open>An example dataset.\<close>

definition ex_dataset :: dataset where
  "ex_dataset = \<lparr>data_vars = [''u10'', ''v10'', ''temp''],
     coords = [''latitude'' \<mapsto> [10, 30, 20], ''lon'' \<mapsto> [3, 1, 2]]\<rparr>"

section \<open>Tileset naming (\<^verbatim>\<open>generate_tileset_id\<close> in \<^verbatim>\<open>app/core/netcdf_processor.py\<close>)\<close>

text \<open>
  \<^verbatim>\<open>Path.stem\<close> on the final path component: the name without its last suffix, where
  a suffix starts at the last dot unless that dot is the first or the last character.
\<close>

definition rfind :: "char \<Rightarrow> string \<Rightarrow> nat option" where
  "rfind c s =
     (if c \<in> set s then Some (length s - 1 - length (takeWhile (\<lambda>x. x \<noteq> c) (rev s))) else None)"

definition py_stem :: "string \<Rightarrow> string" where
  "py_stem name =
     (case rfind (CHR ''.'') name of
        None \<Rightarrow> name
      | Some i \<Rightarrow> if 0 < i \<and> i < length name - 1 then take i name else name)"

text \<open>\<^verbatim>\<open>s.split('_', 1)[-1]\<close>: what follows the first underscore, or all of \<open>s\<close>.\<close>

definition split_once_last :: "string \<Rightarrow> string" where
  "split_once_last s =
     (if CHR ''_'' \<in> set s then tl (dropWhile (\<lambda>c. c \<noteq> CHR ''_'') s) else s)"

text \<open>\<^verbatim>\<open>c.isalnum() or c in '-_'\<close>\<close>

definition keep_char :: "char \<Rightarrow> bool" where
  "keep_char c = (py_isalnum c \<or> c = CHR ''-'' \<or> c = CHR ''_'')"

text \<open>\<^verbatim>\<open>s.split(sep)\<close> for a separator of one character, and \<^verbatim>\<open>sep.join(parts)\<close>.\<close>

fun split_on :: "char \<Rightarrow> string \<Rightarrow> string list" where
  "split_on sep [] = [[]]"
| "split_on sep (x # xs) =
     (if x = sep then [] # split_on sep xs
      else (case split_on sep xs of [] \<Rightarrow> [[x]] | p # ps \<Rightarrow> (x # p) # ps))"

fun join_with :: "string \<Rightarrow> string list \<Rightarrow> string" where
  "join_with sep [] = []"
| "join_with sep [p] = p"
| "join_with sep (p # q # ps) = p @ sep @ join_with sep (q # ps)"

definition rstrip :: "char \<Rightarrow> string \<Rightarrow> string" where
  "rstrip c s = rev (dropWhile (\<lambda>x. x = c) (rev s))"

text \<open>
  The clock: the fields of \<^verbatim>\<open>datetime.now()\<close> that \<^verbatim>\<open>strftime("%m%d%H%M")\<close>
  prints, two decimal digits each.
\<close>

record clock =
  month :: nat
  day :: nat
  hour :: nat
  minute :: nat

definition digit_char :: "nat \<Rightarrow> char" where
  "digit_char n = ''0123456789'' ! (n mod 10)"

definition pad2 :: "nat \<Rightarrow> string" where
  "pad2 n = [digit_char (n div 10), digit_char n]"

definition strftime_mdHM :: "clock \<Rightarrow> string" where
  "strftime_mdHM now = pad2 (month now) @ pad2 (day now) @ pad2 (hour now) @ pad2 (minute now)"

text \<open>The sanitising of the tileset name: lowercase, replace, split on underscores and rejoin.\<close>

definition sanitize_name :: "string \<Rightarrow> string" where
  "sanitize_name tileset_name =
     (let lowered = str_lower tileset_name;
          replaced = map (\<lambda>c. if keep_char c then c else CHR ''_'') lowered
      in join_with ''_'' (filter (\<lambda>part. part \<noteq> []) (split_on (CHR ''_'') replaced)))"

text \<open>The name taken from the file when no tileset name is given (the name being falsy).\<close>

definition default_name :: "string \<Rightarrow> string" where
  "default_name file_name =
     (let filename = split_once_last (py_stem file_name);
          tileset_name = take 20 (filter keep_char filename)
      in if tileset_name = [] then ''weather_data'' else tileset_name)"

text \<open>
  \<^verbatim>\<open>generate_tileset_id\<close>. The first argument is the final component of
  \<^verbatim>\<open>file_path\<close>; the clock is the value of \<^verbatim>\<open>datetime.now()\<close>.
\<close>

definition generate_tileset_id :: "clock \<Rightarrow> string \<Rightarrow> string option \<Rightarrow> string option \<Rightarrow> string" where
  "generate_tileset_id now file_name tileset_name batch =
     (let tileset_name1 =
            (if truthy tileset_name then (case tileset_name of Some n \<Rightarrow> n | None \<Rightarrow> [])
             else default_name file_name);
          tileset_name2 = sanitize_name tileset_name1;
          timestamp = strftime_mdHM now;
          prefix = (if truthy batch
                    then (case batch of Some b \<Rightarrow> ''wxb_'' @ take 8 b | None \<Rightarrow> ''wx'')
                    else ''wx'');
          max_name_length = 32 - int (length prefix) - int (length timestamp) - 2;
          tileset_name3 =
            (if int (length tileset_name2) > max_name_length
             then take (nat max_name_length) tileset_name2 else tileset_name2);
          tileset_id = prefix @ ''_'' @ tileset_name3 @ ''_'' @ timestamp;
          tileset_id1 = str_lower tileset_id;
          tileset_id2 = filter keep_char tileset_id1
      in rstrip (CHR ''_'') (take 32 tileset_id2))"

text \<open>The characters of \<^verbatim>\<open>[a-z0-9_-]\<close>, and the code points of ASCII.\<close>

definition tileset_charset :: "char \<Rightarrow> bool" where
  "tileset_charset c =
     (let n = (of_char c :: nat) in
      (97 \<le> n \<and> n \<le> 122) \<or> (48 \<le> n \<and> n \<le> 57) \<or> c = CHR ''_'' \<or> c = CHR ''-'')"


text \<open>A character that the final lowercasing and filtering leave as it is.\<close>

definition clean_char :: "char \<Rightarrow> bool" where
  "clean_char c = (keep_char c \<and> py_lower c = c)"


definition ex_clock :: clock where
  "ex_clock = \<lparr>month = 1, day = 1, hour = 12, minute = 0\<rparr>"

section \<open>Deleting a file (\<^verbatim>\<open>app/core/file_manager.py\<close>, \<^verbatim>\<open>app/api/files.py\<close>)\<close>

text \<open>
  The disk is the set of paths of the files under the upload directory (\<open>upload_dir\<close>)
  and the set of names of the files in the recipe directory (\<open>recipe_dir\<close>).
  \<^verbatim>\<open>unlink\<close> raises on the paths and names that the predicate \<open>locked\<close> holds of.

  \<^verbatim>\<open>RECIPE_DIR.glob(f"*{file_id}*.json")\<close>: the names that end in \<^verbatim>\<open>.json\<close> and
  contain the id before that ending (an id has no wildcard character of its own).
\<close>

definition glob_match :: "string \<Rightarrow> string \<Rightarrow> bool" where
  "glob_match file_id name =
     (suffix ''.json'' name \<and> str_contains (take (length name - 5) name) file_id)"

text \<open>
  The recipe sidecar that \<^verbatim>\<open>save_recipe_info\<close> writes for a tileset:
  \<^verbatim>\<open>recipe_{tileset_id}.json\<close>.
\<close>

definition recipe_name :: "string \<Rightarrow> string" where
  "recipe_name tileset_id = ''recipe_'' @ tileset_id @ ''.json''"

definition delete_file_and_cleanup :: "(string \<Rightarrow> bool) \<Rightarrow> app_state \<Rightarrow> string \<Rightarrow> bool \<times> app_state" where
  "delete_file_and_cleanup locked st file_id =
     (case uploaded_files st file_id of
        None \<Rightarrow> (False, st)
      | Some file_info \<Rightarrow>
          (let file_path = fr_file_path file_info in
           if file_path \<in> upload_dir st \<and> locked file_path then (False, st)
           else
             (let st1 = st\<lparr>upload_dir := upload_dir st - {file_path}\<rparr>;
                  st2 = st1\<lparr>active_visualizations := (active_visualizations st1)(file_id := None)\<rparr>;
                  st3 = st2\<lparr>active_sessions := (active_sessions st2)(file_id := None)\<rparr>;
                  st4 = st3\<lparr>recipe_dir :=
                          recipe_dir st3 - {name. glob_match file_id name \<and> \<not> locked name}\<rparr>;
                  st5 = st4\<lparr>uploaded_files := (uploaded_files st4)(file_id := None)\<rparr>
              in (True, st5))))"

record delete_response =
  dr_success :: bool
  dr_message :: string
  dr_file_id :: "string option"

text \<open>
  \<^verbatim>\<open>delete_file\<close>. The \<^verbatim>\<open>HTTPException(500)\<close> raised inside the
  \<^verbatim>\<open>try\<close> is caught by its \<^verbatim>\<open>except Exception\<close> and raised again with the
  text of the first, which the parameter \<open>render\<close> gives.
\<close>

definition delete_file ::
  "(http_error \<Rightarrow> string) \<Rightarrow> (string \<Rightarrow> bool) \<Rightarrow> app_state \<Rightarrow> string \<Rightarrow> (http_error + delete_response) \<times> app_state" where
  "delete_file render locked st file_id =
     (if uploaded_files st file_id = None then (Inl (HTTPException 404 ''File not found''), st)
      else
        (case delete_file_and_cleanup locked st file_id of
           (True, st') \<Rightarrow>
             (Inr \<lparr>dr_success = True, dr_message = ''File deleted successfully'',
                    dr_file_id = Some file_id\<rparr>, st')
         | (False, st') \<Rightarrow>
             (Inl (HTTPException 500
                (''Failed to delete file: '' @ render (HTTPException 500 ''Failed to delete file''))),
              st')))"

text \<open>
  An uploaded file with its Visualization Record and the recipe sidecar of its published
  tileset, and a second sidecar whose name contains the job id.
\<close>

definition ex_file :: file_record where
  "ex_file =
     \<lparr>fr_filename = ''20240101120000_data.nc'', fr_original_filename = ''data.nc'',
      fr_file_path = ''uploads/20240101120000_data.nc'',
      fr_tileset_id = Some ''wx_data_01011200'', fr_processing_status = ''completed'',
      fr_error = None, fr_batch_id = None\<rparr>"

definition ex_state_published :: app_state where
  "ex_state_published =
     \<lparr>active_visualizations =
        [''20240101120000'' \<mapsto>
           (ex_viz ''completed'')\<lparr>viz_file_path := ''uploads/20240101120000_data.nc'',
              viz_tileset_id := ''wx_data_01011200'', viz_batch_id := None\<rparr>],
      active_sessions = Map.empty,
      batch_jobs = Map.empty,
      uploaded_files = [''20240101120000'' \<mapsto> ex_file],
      upload_dir = {''uploads/20240101120000_data.nc''},
      recipe_dir = {''recipe_wx_data_01011200.json'', ''notes_20240101120000_old.json''}\<rparr>"

section \<open>The publishing orchestrator (\<^verbatim>\<open>app/services/background.py\<close>)\<close>

text \<open>
  The remote publisher is outside the repository. A call of it either raises, with the
  text of the exception, or returns a result dict; \<^verbatim>\<open>result['success']\<close> is read of
  every result, and a key that is read with \<^verbatim>\<open>.get\<close> or may be absent is an
  \<open>option\<close> field.
\<close>

record remote_result =
  rr_success :: bool
  rr_tileset_id :: "string option"
  rr_error :: "string option"
  rr_fallback_to_vector :: bool
  rr_error_code :: "int option"
  rr_source_layer :: "string option"
  rr_recipe_id :: "string option"
  rr_publish_job_id :: "string option"

datatype remote_outcome = Raises string | Returns remote_result

datatype remote_call = RasterCall | VectorCall

text \<open>
  What the orchestrator finds around it: the configured token, whether the construction
  of \<^verbatim>\<open>MapboxClient()\<close> raises, what the two remote calls answer, and whether the
  recipe sidecar can be written.
\<close>

record orch_env =
  mapbox_token :: string
  client_error :: "string option"
  raster_outcome :: remote_outcome
  vector_outcome :: remote_outcome
  recipe_write_ok :: bool

text \<open>\<^verbatim>\<open>if job_id in table: table[job_id][...] = ...\<close>\<close>

definition update_viz :: "string \<Rightarrow> (viz_record \<Rightarrow> viz_record) \<Rightarrow> app_state \<Rightarrow> app_state" where
  "update_viz job_id f st =
     (case active_visualizations st job_id of
        None \<Rightarrow> st
      | Some v \<Rightarrow> st\<lparr>active_visualizations := (active_visualizations st)(job_id \<mapsto> f v)\<rparr>)"

definition update_file :: "string \<Rightarrow> (file_record \<Rightarrow> file_record) \<Rightarrow> app_state \<Rightarrow> app_state" where
  "update_file job_id f st =
     (case uploaded_files st job_id of
        None \<Rightarrow> st
      | Some r \<Rightarrow> st\<lparr>uploaded_files := (uploaded_files st)(job_id \<mapsto> f r)\<rparr>)"

text \<open>
  \<^verbatim>\<open>for file_info in files: if file_info.get('job_id') == job_id: ...; break\<close>: the
  first entry of the job id is updated.
\<close>

fun mark_first :: "string \<Rightarrow> (batch_file \<Rightarrow> batch_file) \<Rightarrow> batch_file list \<Rightarrow> batch_file list" where
  "mark_first job_id f [] = []"
| "mark_first job_id f (file_info # rest) =
     (if bf_job_id file_info = Some job_id then f file_info # rest
      else file_info # mark_first job_id f rest)"

text \<open>\<^verbatim>\<open>if batch_id and batch_id in app_state.batch_jobs: ...\<close>\<close>

definition update_batch_entry ::
  "string option \<Rightarrow> string \<Rightarrow> (batch_file \<Rightarrow> batch_file) \<Rightarrow> app_state \<Rightarrow> app_state" where
  "update_batch_entry batch job_id f st =
     (if truthy batch then
        (case batch of
           None \<Rightarrow> st
         | Some b \<Rightarrow>
             (case batch_jobs st b of
                None \<Rightarrow> st
              | Some br \<Rightarrow>
                  st\<lparr>batch_jobs := (batch_jobs st)(b \<mapsto> br\<lparr>files := mark_first job_id f (files br)\<rparr>)\<rparr>))
      else st)"

text \<open>
  \<^verbatim>\<open>save_recipe_info\<close> writes \<^verbatim>\<open>recipe_{tileset_id}.json\<close>; a failure of the
  write is logged and nothing is written. The content of the sidecar is not modelled.
\<close>

definition save_recipe_info :: "orch_env \<Rightarrow> string \<Rightarrow> app_state \<Rightarrow> app_state" where
  "save_recipe_info env tileset_id st =
     (if recipe_write_ok env then st\<lparr>recipe_dir := insert (recipe_name tileset_id) (recipe_dir st)\<rparr>
      else st)"

text \<open>A step either raises (the text of the exception, with the state so far) or goes on.\<close>

definition then_do ::
  "string option \<times> app_state \<Rightarrow> (app_state \<Rightarrow> string option \<times> app_state) \<Rightarrow> string option \<times> app_state" where
  "then_do r f = (case r of (Some e, s) \<Rightarrow> (Some e, s) | (None, s) \<Rightarrow> f s)"

text \<open>\<^verbatim>\<open>str(KeyError(key))\<close>: the key in single quotes.\<close>

definition key_error_str :: "string \<Rightarrow> string" where
  "key_error_str k = [CHR 0x27] @ k @ [CHR 0x27]"

text \<open>The two early exits: the records of the job fail, no batch entry is touched.\<close>

definition precondition_failed :: "string \<Rightarrow> string \<Rightarrow> app_state \<Rightarrow> app_state" where
  "precondition_failed msg job_id st =
     update_file job_id (\<lambda>r. r\<lparr>fr_processing_status := ''failed'', fr_error := Some msg\<rparr>)
       (update_viz job_id (\<lambda>v. v\<lparr>viz_status := Some ''failed'', viz_error := Some msg\<rparr>) st)"

text \<open>
  The file database and the batch entry after a successful publish:
  \<^verbatim>\<open>result['tileset_id']\<close> raises \<^verbatim>\<open>KeyError\<close> on a result without the key.
\<close>

definition publish_recorded ::
  "remote_result \<Rightarrow> string \<Rightarrow> string option \<Rightarrow> app_state \<Rightarrow> string option \<times> app_state" where
  "publish_recorded result job_id batch st =
     then_do
       (case uploaded_files st job_id of
          None \<Rightarrow> (None, st)
        | Some r \<Rightarrow>
            (let st1 = update_file job_id (\<lambda>r. r\<lparr>fr_processing_status := ''completed''\<rparr>) st in
             case rr_tileset_id result of
               None \<Rightarrow> (Some (key_error_str ''tileset_id''), st1)
             | Some t \<Rightarrow> (None, update_file job_id (\<lambda>r. r\<lparr>fr_tileset_id := Some t\<rparr>) st1)))
       (\<lambda>s. (None, update_batch_entry batch job_id (\<lambda>e. e\<lparr>bf_status := Some ''completed''\<rparr>) s))"

definition raster_success ::
  "orch_env \<Rightarrow> remote_result \<Rightarrow> string \<Rightarrow> string \<Rightarrow> string option \<Rightarrow> app_state \<Rightarrow> string option \<times> app_state" where
  "raster_success env result job_id tileset_id batch st =
     then_do
       (case active_visualizations st job_id of
          None \<Rightarrow> (None, st)
        | Some v \<Rightarrow>
            (case rr_tileset_id result of
               None \<Rightarrow> (Some (key_error_str ''tileset_id''), st)
             | Some t \<Rightarrow>
                 (None,
                  save_recipe_info env tileset_id
                    (update_viz job_id
                       (\<lambda>v. v\<lparr>viz_mapbox_tileset := Some t,
                              viz_status := Some ''completed'',
                              viz_format := Some ''raster-array'',
                              viz_actual_format := Some ''raster-array'',
                              viz_requested_format := Some ''raster-array'',
                              viz_source_layer :=
                                Some (case rr_source_layer result of None \<Rightarrow> ''10winds'' | Some l \<Rightarrow> l),
                              viz_recipe_id := rr_recipe_id result,
                              viz_publish_job_id := rr_publish_job_id result\<rparr>)
                       st))))
       (publish_recorded result job_id batch)"

definition vector_success ::
  "orch_env \<Rightarrow> remote_result \<Rightarrow> string \<Rightarrow> string \<Rightarrow> string option \<Rightarrow> string \<Rightarrow> app_state \<Rightarrow> string option \<times> app_state" where
  "vector_success env result job_id tileset_id batch requested_format st =
     then_do
       (case active_visualizations st job_id of
          None \<Rightarrow> (None, st)
        | Some v \<Rightarrow>
            (case rr_tileset_id result of
               None \<Rightarrow> (Some (key_error_str ''tileset_id''), st)
             | Some t \<Rightarrow>
                 (let st1 = update_viz job_id
                       (\<lambda>v. v\<lparr>viz_mapbox_tileset := Some t,
                              viz_status := Some ''completed'',
                              viz_format := Some ''vector'',
                              viz_actual_format := Some ''vector'',
                              viz_source_layer :=
                                Some (case rr_source_layer result of None \<Rightarrow> ''weather_data'' | Some l \<Rightarrow> l),
                              viz_recipe_id := rr_recipe_id result,
                              viz_publish_job_id := rr_publish_job_id result\<rparr>)
                       st;
                      st2 = (if requested_format = ''raster-array''
                             then update_viz job_id
                                    (\<lambda>v. v\<lparr>viz_format_fallback := True,
                                           viz_warning :=
                                             Some ''Created vector format (raster-array requires Pro account)'',
                                           viz_use_client_animation := True\<rparr>)
                                    st1
                             else st1)
                  in (None, save_recipe_info env tileset_id st2))))
       (publish_recorded result job_id batch)"

text \<open>A remote failure that ends the job: the three records fail with the remote's error.\<close>

definition publish_failed :: "string option \<Rightarrow> string \<Rightarrow> string option \<Rightarrow> app_state \<Rightarrow> app_state" where
  "publish_failed err job_id batch st =
     update_batch_entry batch job_id (\<lambda>e. e\<lparr>bf_status := Some ''failed'', bf_error := err\<rparr>)
       (update_file job_id (\<lambda>r. r\<lparr>fr_processing_status := ''failed'', fr_error := err\<rparr>)
          (update_viz job_id (\<lambda>v. v\<lparr>viz_error := err, viz_status := Some ''failed''\<rparr>) st))"

text \<open>The vector path: \<^verbatim>\<open>if actual_format != 'raster-array': ...\<close>\<close>

definition vector_path ::
  "orch_env \<Rightarrow> string \<Rightarrow> string \<Rightarrow> string option \<Rightarrow> string \<Rightarrow> remote_call list \<Rightarrow> app_state
    \<Rightarrow> string option \<times> app_state \<times> remote_call list" where
  "vector_path env job_id tileset_id batch requested_format calls st =
     (case vector_outcome env of
        Raises msg \<Rightarrow> (Some msg, st, calls @ [VectorCall])
      | Returns result \<Rightarrow>
          if rr_success result
          then (case vector_success env result job_id tileset_id batch requested_format st of
                  (e, s) \<Rightarrow> (e, s, calls @ [VectorCall]))
          else (let error_msg = (case rr_error result of None \<Rightarrow> ''Unknown error'' | Some e \<Rightarrow> e)
                in (None, publish_failed (Some error_msg) job_id batch st, calls @ [VectorCall])))"

text \<open>
  The body of the \<^verbatim>\<open>try\<close>. The result is the text of the exception that left the
  body, if one did, the state at that point, and the remote calls made.
\<close>

definition orchestration_body ::
  "orch_env \<Rightarrow> app_state \<Rightarrow> string \<Rightarrow> string \<Rightarrow> string \<Rightarrow> string option
    \<Rightarrow> string option \<times> app_state \<times> remote_call list" where
  "orchestration_body env st file_path job_id tileset_id batch =
     (if mapbox_token env = [] then
        (None, precondition_failed ''Mapbox token not configured'' job_id st, [])
      else if file_path \<notin> upload_dir st then
        (None, precondition_failed ''Input file not found'' job_id st, [])
      else
        (case active_visualizations st job_id of
           None \<Rightarrow> (Some (key_error_str job_id), st, [])
         | Some v \<Rightarrow>
             (let requested_format =
                    (case viz_requested_format v of None \<Rightarrow> ''vector'' | Some f \<Rightarrow> f)
              in case client_error env of
                   Some msg \<Rightarrow> (Some msg, st, [])
                 | None \<Rightarrow>
                     if requested_format = ''raster-array'' then
                       (case raster_outcome env of
                          Raises msg \<Rightarrow> (Some msg, st, [RasterCall])
                        | Returns result \<Rightarrow>
                            if rr_success result then
                              (case raster_success env result job_id tileset_id batch st of
                                 (e, s) \<Rightarrow> (e, s, [RasterCall]))
                            else if rr_fallback_to_vector result \<or> rr_error_code result = Some 422 then
                              vector_path env job_id tileset_id batch requested_format [RasterCall]
                                (update_viz job_id
                                   (\<lambda>v. v\<lparr>viz_warning :=
                                            Some (case rr_error result of
                                                    None \<Rightarrow> ''Falling back to vector format''
                                                  | Some e \<Rightarrow> e),
                                          viz_use_client_animation := True\<rparr>)
                                   st)
                            else
                              (None, publish_failed (rr_error result) job_id batch st, [RasterCall]))
                     else vector_path env job_id tileset_id batch requested_format [] st)))"

text \<open>The \<^verbatim>\<open>except Exception as e\<close> of the orchestrator.\<close>

definition exception_handler :: "string \<Rightarrow> string \<Rightarrow> string option \<Rightarrow> app_state \<Rightarrow> app_state" where
  "exception_handler msg job_id batch st =
     update_batch_entry batch job_id (\<lambda>e. e\<lparr>bf_status := Some ''failed'', bf_error := Some msg\<rparr>)
       (update_file job_id (\<lambda>r. r\<lparr>fr_processing_status := ''failed'', fr_error := Some msg\<rparr>)
          (update_viz job_id (\<lambda>v. v\<lparr>viz_status := Some ''failed'', viz_error := Some msg\<rparr>) st))"

definition create_mapbox_tileset_background ::
  "orch_env \<Rightarrow> app_state \<Rightarrow> string \<Rightarrow> string \<Rightarrow> string \<Rightarrow> string \<Rightarrow> string option
    \<Rightarrow> app_state \<times> remote_call list" where
  "create_mapbox_tileset_background env st file_path job_id tileset_id visualization_type batch =
     (case orchestration_body env st file_path job_id tileset_id batch of
        (None, s, calls) \<Rightarrow> (s, calls)
      | (Some msg, s, calls) \<Rightarrow> (exception_handler msg job_id batch s, calls))"

text \<open>
  Two states hold records of the same ids: the same job ids have a Visualization Record
  and an Uploaded File Record, the same batch ids have a Batch Record, and the entries of
  a Batch Record are of the same job ids in the same order.
\<close>

definition same_ids :: "app_state \<Rightarrow> app_state \<Rightarrow> bool" where
  "same_ids s t =
     (dom (active_visualizations s) = dom (active_visualizations t) \<and>
      dom (uploaded_files s) = dom (uploaded_files t) \<and>
      (\<forall>b. rel_option (\<lambda>x y. map bf_job_id (files x) = map bf_job_id (files y))
              (batch_jobs s b) (batch_jobs t b)))"

text \<open>
  A job of a batch that waits for its publish, with raster-array requested, and the
  answers of the remote publisher used in the examples.
\<close>

definition ex_state_raster :: app_state where
  "ex_state_raster =
     \<lparr>active_visualizations =
        [''20240101120000'' \<mapsto>
           (ex_viz ''processing'')\<lparr>viz_file_path := ''uploads/20240101120000_data.nc'',
              viz_tileset_id := ''wx_data_01011200'',
              viz_requested_format := Some ''raster-array''\<rparr>],
      active_sessions = Map.empty,
      batch_jobs = [''b1'' \<mapsto> ex_batch [ex_entry ''20240101119999'', ex_entry ''20240101120000'']],
      uploaded_files =
        [''20240101120000'' \<mapsto>
           ex_file\<lparr>fr_processing_status := ''processing'', fr_tileset_id := None,
             fr_batch_id := Some ''b1''\<rparr>],
      upload_dir = {''uploads/20240101120000_data.nc''},
      recipe_dir = {}\<rparr>"

definition ex_result_failed :: "bool \<Rightarrow> int option \<Rightarrow> string \<Rightarrow> remote_result" where
  "ex_result_failed fallback code err =
     \<lparr>rr_success = False, rr_tileset_id = None, rr_error = Some err,
      rr_fallback_to_vector = fallback, rr_error_code = code, rr_source_layer = None,
      rr_recipe_id = None, rr_publish_job_id = None\<rparr>"

definition ex_result_ok :: remote_result where
  "ex_result_ok =
     \<lparr>rr_success = True, rr_tileset_id = Some ''user.wx_data_01011200'', rr_error = None,
      rr_fallback_to_vector = False, rr_error_code = None,
      rr_source_layer = Some ''weather_data'', rr_recipe_id = Some ''r1'',
      rr_publish_job_id = Some ''p1''\<rparr>"

definition ex_env :: "remote_outcome \<Rightarrow> remote_outcome \<Rightarrow> orch_env" where
  "ex_env raster vector =
     \<lparr>mapbox_token = ''pk.token'', client_error = None, raster_outcome = raster,
      vector_outcome = vector, recipe_write_ok = True\<rparr>"

section \<open>Ingestion (\<^verbatim>\<open>process_netcdf_file\<close>, \<^verbatim>\<open>app/services/processing.py\<close>, \<^verbatim>\<open>app/api/upload.py\<close>)\<close>





















section \<open>Batch status on read: proofs\<close>

lemma count_statuses_step:
  "count_statuses viz (x # xs) (c, f, p) =
     count_statuses viz xs
       (case current_status viz x of
          None \<Rightarrow> (c, f, p)
        | Some s \<Rightarrow> if s = ''completed'' then (c + 1, f, p)
                    else if s = ''failed'' then (c, f + 1, p) else (c, f, p + 1))"
  by (simp add: current_status_def Let_def split: option.split)

lemma count_statuses_filter:
  "count_statuses viz fs (c, f, p) =
     (c + length (filter (\<lambda>x. current_status viz x = Some ''completed'') fs),
      f + length (filter (\<lambda>x. current_status viz x = Some ''failed'') fs),
      p + length (filter (\<lambda>x. \<exists>s. current_status viz x = Some s \<and> s \<noteq> ''completed'' \<and> s \<noteq> ''failed'') fs))"
proof (induction fs arbitrary: c f p)
  case Nil
  show ?case by simp
next
  case (Cons x xs)
  show ?case
    unfolding count_statuses_step
    by (cases "current_status viz x") (simp_all add: Cons.IH)
qed

lemma length_filter_all: "length (filter P xs) = length xs \<longleftrightarrow> (\<forall>x\<in>set xs. P x)"
  by (induction xs) (auto simp: le_imp_less_Suc length_filter_le less_not_refl3 dest: arg_cong[where f=length])

lemma list_all_map_filter:
  "list_all Q (List.map_filter g xs) \<longleftrightarrow> (\<forall>x\<in>set xs. \<forall>y. g x = Some y \<longrightarrow> Q y)"
  by (induction xs) (auto simp: List.map_filter_simps split: option.splits)

lemma list_ex_map_filter:
  "list_ex Q (List.map_filter g xs) \<longleftrightarrow> (\<exists>x\<in>set xs. \<exists>y. g x = Some y \<and> Q y)"
  by (induction xs) (auto simp: List.map_filter_simps split: option.splits)

lemma get_batch_status_unfold:
  assumes "batch_jobs st bid = Some b"
  shows "get_batch_status st bid =
    (let viz = active_visualizations st;
         completed = length (filter (\<lambda>x. current_status viz x = Some ''completed'') (files b));
         failed = length (filter (\<lambda>x. current_status viz x = Some ''failed'') (files b));
         processing = length (filter (\<lambda>x. \<exists>s. current_status viz x = Some s \<and> s \<noteq> ''completed'' \<and> s \<noteq> ''failed'') (files b));
         b' = b\<lparr>batch_status :=
                  (if processing > 0 then ''processing''
                   else if failed = length (files b) then ''failed''
                   else if completed = length (files b) then ''completed''
                   else ''partial''),
                completed_files := Some completed,
                failed_files := Some failed,
                processing_files := Some processing\<rparr>
     in Inr (b', st\<lparr>batch_jobs := (batch_jobs st)(bid \<mapsto> b')\<rparr>))"
  using assms by (simp add: get_batch_status_def count_statuses_filter Let_def)

text \<open>The rule of the code on three counters agrees with the rule of the specification.\<close>

lemma rule_agrees:
  fixes cs :: "'a \<Rightarrow> string option"
  assumes dom: "\<And>x. x \<in> set fs \<Longrightarrow> cs x = Some P \<or> cs x = Some C \<or> cs x = Some F"
    and d: "P \<noteq> C" "P \<noteq> F" "C \<noteq> F"
  shows "(if list_all (\<lambda>s. s = F) (List.map_filter cs fs) then rf
      else if list_all (\<lambda>s. s = C) (List.map_filter cs fs) then rc
      else if list_ex (\<lambda>s. s = P) (List.map_filter cs fs) then rp
      else rx) =
     (if length (filter (\<lambda>x. \<exists>s. cs x = Some s \<and> s \<noteq> C \<and> s \<noteq> F) fs) > 0 then rp
      else if length (filter (\<lambda>x. cs x = Some F) fs) = length fs then rf
      else if length (filter (\<lambda>x. cs x = Some C) fs) = length fs then rc
      else rx)"
proof -
  have all_failed: "list_all (\<lambda>s. s = F) (List.map_filter cs fs) \<longleftrightarrow>
      length (filter (\<lambda>x. cs x = Some F) fs) = length fs"
    unfolding list_all_map_filter length_filter_all using dom by fastforce
  have all_completed: "list_all (\<lambda>s. s = C) (List.map_filter cs fs) \<longleftrightarrow>
      length (filter (\<lambda>x. cs x = Some C) fs) = length fs"
    unfolding list_all_map_filter length_filter_all using dom by fastforce
  have p_pos: "length (filter (\<lambda>x. \<exists>s. cs x = Some s \<and> s \<noteq> C \<and> s \<noteq> F) fs) > 0
      \<longleftrightarrow> (\<exists>x\<in>set fs. cs x = Some P)"
  proof -
    have "length (filter (\<lambda>x. \<exists>s. cs x = Some s \<and> s \<noteq> C \<and> s \<noteq> F) fs) > 0
      \<longleftrightarrow> (\<exists>x\<in>set fs. \<exists>s. cs x = Some s \<and> s \<noteq> C \<and> s \<noteq> F)"
      by (auto simp: filter_empty_conv)
    also have "\<dots> \<longleftrightarrow> (\<exists>x\<in>set fs. cs x = Some P)"
      using dom d by fastforce
    finally show ?thesis .
  qed
  have any_processing: "list_ex (\<lambda>s. s = P) (List.map_filter cs fs) \<longleftrightarrow> (\<exists>x\<in>set fs. cs x = Some P)"
    unfolding list_ex_map_filter by auto
  have excl_f: "(\<exists>x\<in>set fs. cs x = Some P) \<Longrightarrow> length (filter (\<lambda>x. cs x = Some F) fs) \<noteq> length fs"
    unfolding length_filter_all using d by force
  have excl_c: "(\<exists>x\<in>set fs. cs x = Some P) \<Longrightarrow> length (filter (\<lambda>x. cs x = Some C) fs) \<noteq> length fs"
    unfolding length_filter_all using d by force
  show ?thesis
    unfolding all_failed all_completed any_processing p_pos
    using excl_f excl_c by auto
qed

text \<open>
  Claim C1. For a Batch Record whose every file entry's job id has a Visualization Record
  (with a status of the data model: processing, completed or failed), the batch-status read
  returns a record, stores that same record back under the batch id, and the record's
  aggregate status is the rule of the specification applied to the files' current
  statuses. The rule is read in its order, so a batch of no files is \<open>failed\<close>. On the
  statuses of the specification's examples the rule gives completed, failed, processing
  and partial.
\<close>

theorem get_batch_status_aggregate:
  assumes job: "batch_jobs st bid = Some b"
    and known: "\<forall>f\<in>set (files b). \<exists>s\<in>status_domain. current_status (active_visualizations st) f = Some s"
  shows "(\<exists>b' st'. get_batch_status st bid = Inr (b', st') \<and> batch_jobs st' bid = Some b' \<and>
           batch_status b' =
             aggregate_status_rule (List.map_filter (current_status (active_visualizations st)) (files b)))
    \<and> aggregate_status_rule [''completed'', ''completed'', ''completed''] = ''completed''
    \<and> aggregate_status_rule [''failed'', ''failed'', ''failed''] = ''failed''
    \<and> aggregate_status_rule [''completed'', ''processing'', ''failed''] = ''processing''
    \<and> aggregate_status_rule [''completed'', ''failed'', ''completed''] = ''partial''"
proof -
  let ?cs = "current_status (active_visualizations st)"
  have dom: "\<And>x. x \<in> set (files b) \<Longrightarrow>
      ?cs x = Some ''processing'' \<or> ?cs x = Some ''completed'' \<or> ?cs x = Some ''failed''"
    using known unfolding status_domain_def by blast
  have d: "''processing'' \<noteq> ''completed''" "''processing'' \<noteq> ''failed''" "''completed'' \<noteq> ''failed''"
    by simp_all
  have rule: "aggregate_status_rule (List.map_filter ?cs (files b)) =
      (if length (filter (\<lambda>x. \<exists>s. ?cs x = Some s \<and> s \<noteq> ''completed'' \<and> s \<noteq> ''failed'') (files b)) > 0
       then ''processing''
       else if length (filter (\<lambda>x. ?cs x = Some ''failed'') (files b)) = length (files b) then ''failed''
       else if length (filter (\<lambda>x. ?cs x = Some ''completed'') (files b)) = length (files b) then ''completed''
       else ''partial'')"
    unfolding aggregate_status_rule_def by (rule rule_agrees [OF dom d])
  have main: "\<exists>b' st'. get_batch_status st bid = Inr (b', st') \<and> batch_jobs st' bid = Some b' \<and>
           batch_status b' = aggregate_status_rule (List.map_filter ?cs (files b))"
    unfolding rule get_batch_status_unfold [OF job]
    by (simp add: Let_def)
  have ex: "aggregate_status_rule [''completed'', ''completed'', ''completed''] = ''completed''"
    "aggregate_status_rule [''failed'', ''failed'', ''failed''] = ''failed''"
    "aggregate_status_rule [''completed'', ''processing'', ''failed''] = ''processing''"
    "aggregate_status_rule [''completed'', ''failed'', ''completed''] = ''partial''"
    by (simp_all add: aggregate_status_rule_def)
  from main ex show ?thesis by blast
qed

lemma ex_state_current_status:
  "map (current_status (active_visualizations (ex_state s1 s2 s3)))
     [ex_entry ''j1'', ex_entry ''j2'', ex_entry ''j3''] = [Some s1, Some s2, Some s3]"
  by (simp add: current_status_def ex_state_def ex_entry_def ex_viz_def)

text \<open>
  The four examples of the specification on the code: a batch of three files whose
  Visualization Records have the given statuses.
\<close>

theorem get_batch_status_aggregate_witness:
  "(\<exists>b' st'. get_batch_status (ex_state ''completed'' ''completed'' ''completed'') ''b1'' = Inr (b', st')
      \<and> batch_jobs st' ''b1'' = Some b' \<and> batch_status b' = ''completed'')
   \<and> (\<exists>b' st'. get_batch_status (ex_state ''failed'' ''failed'' ''failed'') ''b1'' = Inr (b', st')
      \<and> batch_jobs st' ''b1'' = Some b' \<and> batch_status b' = ''failed'')
   \<and> (\<exists>b' st'. get_batch_status (ex_state ''completed'' ''processing'' ''failed'') ''b1'' = Inr (b', st')
      \<and> batch_jobs st' ''b1'' = Some b' \<and> batch_status b' = ''processing'')
   \<and> (\<exists>b' st'. get_batch_status (ex_state ''completed'' ''failed'' ''completed'') ''b1'' = Inr (b', st')
      \<and> batch_jobs st' ''b1'' = Some b' \<and> batch_status b' = ''partial'')"
proof -
  let ?b = "ex_batch [ex_entry ''j1'', ex_entry ''j2'', ex_entry ''j3'']"
  have fs: "files ?b = [ex_entry ''j1'', ex_entry ''j2'', ex_entry ''j3'']"
    by (simp add: ex_batch_def)
  have gen: "\<exists>b' st'. get_batch_status (ex_state s1 s2 s3) ''b1'' = Inr (b', st')
      \<and> batch_jobs st' ''b1'' = Some b' \<and> batch_status b' = aggregate_status_rule [s1, s2, s3]"
    if dom: "s1 \<in> status_domain" "s2 \<in> status_domain" "s3 \<in> status_domain" for s1 s2 s3
  proof -
    have job: "batch_jobs (ex_state s1 s2 s3) ''b1'' = Some ?b"
      by (simp add: ex_state_def)
    have known: "\<forall>f\<in>set (files ?b). \<exists>s\<in>status_domain.
        current_status (active_visualizations (ex_state s1 s2 s3)) f = Some s"
      using ex_state_current_status [of s1 s2 s3] dom unfolding fs by simp
    have sts: "List.map_filter (current_status (active_visualizations (ex_state s1 s2 s3))) (files ?b)
        = [s1, s2, s3]"
      using ex_state_current_status [of s1 s2 s3] unfolding fs
      by (simp add: List.map_filter_simps)
    from get_batch_status_aggregate [OF job known] show ?thesis
      unfolding sts by blast
  qed
  have d: "''completed'' \<in> status_domain" "''failed'' \<in> status_domain" "''processing'' \<in> status_domain"
    by (simp_all add: status_domain_def)
  have r: "aggregate_status_rule [''completed'', ''completed'', ''completed''] = ''completed''"
    "aggregate_status_rule [''failed'', ''failed'', ''failed''] = ''failed''"
    "aggregate_status_rule [''completed'', ''processing'', ''failed''] = ''processing''"
    "aggregate_status_rule [''completed'', ''failed'', ''completed''] = ''partial''"
    by (simp_all add: aggregate_status_rule_def)
  from gen [OF d(1) d(1) d(1)] gen [OF d(2) d(2) d(2)] gen [OF d(1) d(3) d(2)] gen [OF d(1) d(2) d(1)]
  show ?thesis unfolding r by (intro conjI)
qed

text \<open>
  Claim C10. A batch file entry whose job id has no current Visualization Record is counted
  in none of the three counters: the counters are those of the entries that have one. So a
  batch with a non-empty files list none of whose entries has a Visualization Record is
  \<open>partial\<close> with all three counters zero, and a batch with an empty files list is
  \<open>failed\<close>.
\<close>

theorem get_batch_status_unmatched:
  assumes job: "batch_jobs st bid = Some b"
  shows "\<exists>b' st'. get_batch_status st bid = Inr (b', st') \<and>
     count_statuses (active_visualizations st) (files b) (0, 0, 0) =
       count_statuses (active_visualizations st)
         (filter (\<lambda>f. current_status (active_visualizations st) f \<noteq> None) (files b)) (0, 0, 0) \<and>
     (completed_files b', failed_files b', processing_files b') =
       (case count_statuses (active_visualizations st)
               (filter (\<lambda>f. current_status (active_visualizations st) f \<noteq> None) (files b)) (0, 0, 0)
        of (c, f, p) \<Rightarrow> (Some c, Some f, Some p)) \<and>
     (files b \<noteq> [] \<and> (\<forall>f\<in>set (files b). current_status (active_visualizations st) f = None) \<longrightarrow>
        batch_status b' = ''partial'' \<and> completed_files b' = Some 0 \<and> failed_files b' = Some 0 \<and>
        processing_files b' = Some 0) \<and>
     (files b = [] \<longrightarrow> batch_status b' = ''failed'')"
proof -
  let ?viz = "active_visualizations st"
  have flt: "\<And>P. length (filter (\<lambda>x. \<exists>s. current_status ?viz x = Some s \<and> P s)
                 (filter (\<lambda>f. current_status ?viz f \<noteq> None) (files b)))
           = length (filter (\<lambda>x. \<exists>s. current_status ?viz x = Some s \<and> P s) (files b))"
    by (simp add: conj_commute cong: conj_cong) (metis (mono_tags, lifting) filter_cong option.discI)
  have none: "(\<forall>f\<in>set (files b). current_status ?viz f = None) \<Longrightarrow>
      filter (\<lambda>x. \<exists>s. current_status ?viz x = Some s \<and> P s) (files b) = []" for P
    by (auto simp: filter_empty_conv)
  show ?thesis
    unfolding get_batch_status_unfold [OF job] count_statuses_filter
    using flt [of "\<lambda>s. s = ''completed''"] flt [of "\<lambda>s. s = ''failed''"]
      flt [of "\<lambda>s. s \<noteq> ''completed'' \<and> s \<noteq> ''failed''"]
      none [of "\<lambda>s. s = ''completed''"] none [of "\<lambda>s. s = ''failed''"]
      none [of "\<lambda>s. s \<noteq> ''completed'' \<and> s \<noteq> ''failed''"]
    by (simp add: Let_def)
qed

theorem get_batch_status_unmatched_witness:
  "(\<exists>b' st'. get_batch_status ex_state_orphans ''b1'' = Inr (b', st') \<and>
      batch_status b' = ''partial'' \<and> completed_files b' = Some 0 \<and>
      failed_files b' = Some 0 \<and> processing_files b' = Some 0) \<and>
   (\<exists>b' st'. get_batch_status ex_state_orphans ''b0'' = Inr (b', st') \<and>
      batch_status b' = ''failed'')"
proof -
  have j1: "batch_jobs ex_state_orphans ''b1'' = Some (ex_batch [ex_entry ''j1'', ex_entry ''j2''])"
    by (simp add: ex_state_orphans_def)
  have j0: "batch_jobs ex_state_orphans ''b0'' = Some (ex_batch [])"
    by (simp add: ex_state_orphans_def)
  have none: "\<forall>f\<in>set (files (ex_batch [ex_entry ''j1'', ex_entry ''j2''])).
      current_status (active_visualizations ex_state_orphans) f = None"
    by (simp add: ex_batch_def ex_entry_def current_status_def ex_state_orphans_def)
  have ne: "files (ex_batch [ex_entry ''j1'', ex_entry ''j2'']) \<noteq> []"
    by (simp add: ex_batch_def)
  have e: "files (ex_batch []) = []"
    by (simp add: ex_batch_def)
  from get_batch_status_unmatched [OF j1] none ne
  have "\<exists>b' st'. get_batch_status ex_state_orphans ''b1'' = Inr (b', st') \<and>
      batch_status b' = ''partial'' \<and> completed_files b' = Some 0 \<and>
      failed_files b' = Some 0 \<and> processing_files b' = Some 0"
    by blast
  moreover from get_batch_status_unmatched [OF j0] e
  have "\<exists>b' st'. get_batch_status ex_state_orphans ''b0'' = Inr (b', st') \<and>
      batch_status b' = ''failed''"
    by blast
  ultimately show ?thesis by blast
qed

section \<open>View heuristic: proofs\<close>





section \<open>Geographic bounds: proofs\<close>

lemma find_coord_find:
  "find_coord names cs = (case find (\<lambda>n. cs n \<noteq> None) names of None \<Rightarrow> None | Some n \<Rightarrow> cs n)"
  by (induction names) (auto split: option.splits)

lemma array_max_Max: "xs \<noteq> [] \<Longrightarrow> array_max xs = Inr (Max (set xs))"
proof (cases xs)
  case (Cons x ys)
  have "foldl max x ys = fold max ys x"
    by (simp add: foldl_conv_fold max.commute)
  then show ?thesis
    unfolding Cons by (simp only: array_max.simps Max.set_eq_fold)
qed simp

lemma array_min_Min: "xs \<noteq> [] \<Longrightarrow> array_min xs = Inr (Min (set xs))"
proof (cases xs)
  case (Cons x ys)
  have "foldl min x ys = fold min ys x"
    by (simp add: foldl_conv_fold min.commute)
  then show ?thesis
    unfolding Cons by (simp only: array_min.simps Min.set_eq_fold)
qed simp

text \<open>
  Claim C9, as stated, fails where it says that bounds are returned whenever it is not the
  case that neither axis is found: a dataset with a latitude coordinate and no longitude
  coordinate has one axis found, and the result is \<open>None\<close>.
\<close>

theorem get_dataset_bounds_one_axis:
  "find_coord lat_names (coords \<lparr>data_vars = [''temp''], coords = [''lat'' \<mapsto> [10, 20]]\<rparr>) = Some [10, 20]
   \<and> get_dataset_bounds \<lparr>data_vars = [''temp''], coords = [''lat'' \<mapsto> [10, 20]]\<rparr> = None"
  by (simp add: get_dataset_bounds_def dataset_bounds_body_def lat_names_def lon_names_def)

text \<open>
  Claim C9, amended. The latitude axis is the coordinate under the first of the aliases
  lat, latitude, y, Y that the dataset has, the longitude axis the one under the first of
  lon, longitude, x, X. The result is \<open>None\<close> unless both axes are found: it is
  \<open>None\<close> when either one is missing. When both are found the result is north and
  south, the maximum and minimum of the latitude axis, and east and west, the maximum and
  minimum of the longitude axis; an extraction error (here a reduction of an empty array)
  gives \<open>None\<close> and never an exception.
\<close>

theorem get_dataset_bounds_both_axes:
  "get_dataset_bounds ds =
     (case (find_coord lat_names (coords ds), find_coord lon_names (coords ds)) of
        (Some lat, Some lon) \<Rightarrow>
          if lat \<noteq> [] \<and> lon \<noteq> []
          then Some \<lparr>north = Max (set lat), south = Min (set lat),
                     east = Max (set lon), west = Min (set lon)\<rparr>
          else None
      | _ \<Rightarrow> None)
   \<and> find_coord lat_names (coords ds) =
       (case find (\<lambda>n. coords ds n \<noteq> None) [''lat'', ''latitude'', ''y'', ''Y''] of
          None \<Rightarrow> None | Some n \<Rightarrow> coords ds n)
   \<and> find_coord lon_names (coords ds) =
       (case find (\<lambda>n. coords ds n \<noteq> None) [''lon'', ''longitude'', ''x'', ''X''] of
          None \<Rightarrow> None | Some n \<Rightarrow> coords ds n)
   \<and> ((\<forall>n\<in>set lat_names. coords ds n = None) \<or> (\<forall>n\<in>set lon_names. coords ds n = None)
        \<longrightarrow> get_dataset_bounds ds = None)"
proof -
  have 1: "get_dataset_bounds ds =
     (case (find_coord lat_names (coords ds), find_coord lon_names (coords ds)) of
        (Some lat, Some lon) \<Rightarrow>
          if lat \<noteq> [] \<and> lon \<noteq> []
          then Some \<lparr>north = Max (set lat), south = Min (set lat),
                     east = Max (set lon), west = Min (set lon)\<rparr>
          else None
      | _ \<Rightarrow> None)"
  proof (cases "find_coord lat_names (coords ds)")
    case None
    then show ?thesis by (simp add: get_dataset_bounds_def dataset_bounds_body_def)
  next
    case lat: (Some lat)
    show ?thesis
    proof (cases "find_coord lon_names (coords ds)")
      case None
      then show ?thesis using lat by (simp add: get_dataset_bounds_def dataset_bounds_body_def)
    next
      case lon: (Some lon)
      show ?thesis
      proof (cases "lat = []")
        case True
        then show ?thesis using lat lon
          by (simp add: get_dataset_bounds_def dataset_bounds_body_def)
      next
        case False
        note lat_ne = this
        show ?thesis
        proof (cases "lon = []")
          case True
          then show ?thesis using lat lon lat_ne
            by (simp add: get_dataset_bounds_def dataset_bounds_body_def array_max_Max array_min_Min)
        next
          case False
          then show ?thesis using lat lon lat_ne
            by (simp add: get_dataset_bounds_def dataset_bounds_body_def array_max_Max array_min_Min)
        qed
      qed
    qed
  qed
  have 2: "find_coord lat_names (coords ds) =
       (case find (\<lambda>n. coords ds n \<noteq> None) [''lat'', ''latitude'', ''y'', ''Y''] of
          None \<Rightarrow> None | Some n \<Rightarrow> coords ds n)"
    unfolding lat_names_def by (rule find_coord_find)
  have 3: "find_coord lon_names (coords ds) =
       (case find (\<lambda>n. coords ds n \<noteq> None) [''lon'', ''longitude'', ''x'', ''X''] of
          None \<Rightarrow> None | Some n \<Rightarrow> coords ds n)"
    unfolding lon_names_def by (rule find_coord_find)
  have none: "(\<forall>n\<in>set names. cs n = None) \<Longrightarrow> find_coord names cs = None" for names cs
    by (induction names) auto
  have 4: "(\<forall>n\<in>set lat_names. coords ds n = None) \<or> (\<forall>n\<in>set lon_names. coords ds n = None)
        \<longrightarrow> get_dataset_bounds ds = None"
    unfolding 1 using none [of lat_names "coords ds"] none [of lon_names "coords ds"]
    by (auto split: option.splits)
  from 1 2 3 4 show ?thesis by (intro conjI)
qed

theorem get_dataset_bounds_both_axes_witness:
  "get_dataset_bounds ex_dataset = Some \<lparr>north = 30, south = 10, east = 3, west = 1\<rparr>
   \<and> get_dataset_bounds \<lparr>data_vars = [], coords = [''x'' \<mapsto> [1, 2]]\<rparr> = None"
proof -
  have lat: "find_coord lat_names (coords ex_dataset) = Some [10, 30, 20]"
    by (simp add: ex_dataset_def lat_names_def)
  have lon: "find_coord lon_names (coords ex_dataset) = Some [3, 1, 2]"
    by (simp add: ex_dataset_def lon_names_def)
  have a: "get_dataset_bounds ex_dataset = Some \<lparr>north = 30, south = 10, east = 3, west = 1\<rparr>"
    using get_dataset_bounds_both_axes [of ex_dataset] unfolding lat lon by simp
  have no_lat: "\<forall>n\<in>set lat_names. coords \<lparr>data_vars = [], coords = [''x'' \<mapsto> [1, 2]]\<rparr> n = None"
    by (simp add: lat_names_def)
  have b: "get_dataset_bounds \<lparr>data_vars = [], coords = [''x'' \<mapsto> [1, 2]]\<rparr> = None"
    using get_dataset_bounds_both_axes [of "\<lparr>data_vars = [], coords = [''x'' \<mapsto> [1, 2]]\<rparr>"] no_lat
    by blast
  from a b show ?thesis ..
qed

section \<open>Vector components: proofs\<close>

lemma str_contains_nonempty: "str_contains s p \<Longrightarrow> p \<noteq> [] \<Longrightarrow> s \<noteq> []"
  by (cases s) auto













section \<open>Tileset naming: proofs\<close>

lemma of_char_py_lower:
  "(of_char (py_lower c) :: nat) =
     (if (65 \<le> (of_char c :: nat) \<and> (of_char c :: nat) \<le> 90) \<or>
         (192 \<le> (of_char c :: nat) \<and> (of_char c :: nat) \<le> 222 \<and> (of_char c :: nat) \<noteq> 215)
      then of_char c + 32 else of_char c)"
  by (simp add: py_lower_def Let_def)

lemma py_lower_fixed_iff:
  "py_lower c = c \<longleftrightarrow>
     \<not> ((65 \<le> (of_char c :: nat) \<and> (of_char c :: nat) \<le> 90) \<or>
        (192 \<le> (of_char c :: nat) \<and> (of_char c :: nat) \<le> 222 \<and> (of_char c :: nat) \<noteq> 215))"
proof -
  have "py_lower c = c \<longleftrightarrow> (of_char (py_lower c) :: nat) = of_char c"
    by simp
  then show ?thesis unfolding of_char_py_lower by auto
qed

lemma py_lower_idem: "py_lower (py_lower c) = py_lower c"
  unfolding py_lower_fixed_iff [of "py_lower c"] of_char_py_lower by auto

lemma clean_underscore: "clean_char (CHR ''_'')"
  by (simp add: clean_char_def keep_char_def py_lower_fixed_iff)

lemma clean_replaced: "clean_char (if keep_char (py_lower x) then py_lower x else CHR ''_'')"
  using clean_underscore by (simp add: clean_char_def py_lower_idem)




























text \<open>
  \<^verbatim>\<open>str.isalnum\<close> holds of letters beyond ASCII: a tileset name with the letter of
  code point 233 (e with acute accent) keeps it in the identifier.
\<close>

lemma generate_tileset_id_latin1_name:
  "generate_tileset_id ex_clock ''20240101120000_data.nc'' (Some [CHR ''c'', CHR ''a'', CHR ''f'', CHR 0xE9]) None
     = [CHR ''w'', CHR ''x'', CHR ''_'', CHR ''c'', CHR ''a'', CHR ''f'', CHR 0xE9, CHR ''_'',
        CHR ''0'', CHR ''1'', CHR ''0'', CHR ''1'', CHR ''1'', CHR ''2'', CHR ''0'', CHR ''0'']
   \<and> \<not> tileset_charset (CHR 0xE9)"
  by code_simp


section \<open>Deleting a file: proofs\<close>

text \<open>
  What deleting does: for a job id of the Uploaded File table (the file not locked against
  removal) the file on disk, the Visualization Record, the Session Record and the Uploaded
  File Record are gone, and so is every recipe sidecar whose name matches the job id; a
  second delete is a 404. For a job id not of the table, the answer is a 404 and the
  state is unchanged.
\<close>

lemma delete_file_present:
  assumes "uploaded_files st file_id = Some file_info"
    and "\<not> (fr_file_path file_info \<in> upload_dir st \<and> locked (fr_file_path file_info))"
  shows "\<exists>resp st'. delete_file render locked st file_id = (Inr resp, st')
    \<and> dr_file_id resp = Some file_id
    \<and> fr_file_path file_info \<notin> upload_dir st'
    \<and> active_visualizations st' file_id = None
    \<and> active_sessions st' file_id = None
    \<and> uploaded_files st' file_id = None
    \<and> (\<forall>name\<in>recipe_dir st'. glob_match file_id name \<longrightarrow> locked name)
    \<and> recipe_dir st' = recipe_dir st - {name. glob_match file_id name \<and> \<not> locked name}
    \<and> fst (delete_file render locked st' file_id) = Inl (HTTPException 404 ''File not found'')"
  using assms by (auto simp: delete_file_def delete_file_and_cleanup_def Let_def)

lemma delete_file_absent:
  assumes "uploaded_files st file_id = None"
  shows "delete_file render locked st file_id = (Inl (HTTPException 404 ''File not found''), st)"
  using assms by (simp add: delete_file_def)

text \<open>
  Claim C7 on the code. The recipe sidecar of a published tileset is named by the tileset
  id, \<^verbatim>\<open>recipe_{tileset_id}.json\<close>, and the tileset id does not contain the job id.
  \<^verbatim>\<open>delete_file_and_cleanup\<close> matches the names of the recipe directory against the
  job id only, so deleting the job succeeds and leaves the sidecar of its tileset on disk.
\<close>

theorem delete_file_leaves_tileset_recipe:
  "map_option viz_tileset_id (active_visualizations ex_state_published ''20240101120000'')
     = Some ''wx_data_01011200''
   \<and> generate_tileset_id ex_clock ''20240101120000_data.nc'' None None = ''wx_data_01011200''
   \<and> recipe_name ''wx_data_01011200'' \<in> recipe_dir ex_state_published
   \<and> str_contains (recipe_name ''wx_data_01011200'') ''wx_data_01011200''
   \<and> fst (delete_file render (\<lambda>p. False) ex_state_published ''20240101120000'')
       = Inr \<lparr>dr_success = True, dr_message = ''File deleted successfully'',
              dr_file_id = Some ''20240101120000''\<rparr>
   \<and> recipe_dir (snd (delete_file render (\<lambda>p. False) ex_state_published ''20240101120000''))
       = {recipe_name ''wx_data_01011200''}"
proof -
  have g1: "\<not> glob_match ''20240101120000'' ''recipe_wx_data_01011200.json''"
    by code_simp
  have g2: "glob_match ''20240101120000'' ''notes_20240101120000_old.json''"
    by code_simp
  have 1: "map_option viz_tileset_id (active_visualizations ex_state_published ''20240101120000'')
     = Some ''wx_data_01011200''"
    by (simp add: ex_state_published_def)
  have 2: "generate_tileset_id ex_clock ''20240101120000_data.nc'' None None = ''wx_data_01011200''"
    by code_simp
  have 3: "recipe_name ''wx_data_01011200'' \<in> recipe_dir ex_state_published"
    by (simp add: ex_state_published_def recipe_name_def)
  have 4: "str_contains (recipe_name ''wx_data_01011200'') ''wx_data_01011200''"
    by code_simp
  have f: "uploaded_files ex_state_published ''20240101120000'' = Some ex_file"
    by (simp add: ex_state_published_def)
  have d: "delete_file_and_cleanup (\<lambda>p. False) ex_state_published ''20240101120000'' =
      (True, ex_state_published
         \<lparr>upload_dir := {}, active_visualizations := Map.empty, active_sessions := Map.empty,
          recipe_dir := {''recipe_wx_data_01011200.json''}, uploaded_files := Map.empty\<rparr>)"
    unfolding delete_file_and_cleanup_def f
    by (simp add: Let_def ex_state_published_def ex_file_def g1 g2 insert_Diff_if)
  have 5: "fst (delete_file render (\<lambda>p. False) ex_state_published ''20240101120000'')
       = Inr \<lparr>dr_success = True, dr_message = ''File deleted successfully'',
              dr_file_id = Some ''20240101120000''\<rparr>"
    unfolding delete_file_def d f by simp
  have 6: "recipe_dir (snd (delete_file render (\<lambda>p. False) ex_state_published ''20240101120000''))
       = {recipe_name ''wx_data_01011200''}"
    unfolding delete_file_def d f by (simp add: recipe_name_def)
  from 1 2 3 4 5 6 show ?thesis by (intro conjI)
qed

section \<open>The publishing orchestrator: proofs\<close>

lemma update_viz_Some:
  "active_visualizations st job_id = Some v \<Longrightarrow>
     update_viz job_id f st = st\<lparr>active_visualizations := (active_visualizations st)(job_id \<mapsto> f v)\<rparr>"
  by (simp add: update_viz_def)

lemma viz_update_file [simp]: "active_visualizations (update_file j f st) = active_visualizations st"
  by (simp add: update_file_def split: option.split)

lemma viz_update_batch_entry [simp]:
  "active_visualizations (update_batch_entry b j f st) = active_visualizations st"
  by (simp add: update_batch_entry_def split: option.split)

lemma viz_save_recipe_info [simp]:
  "active_visualizations (save_recipe_info env t st) = active_visualizations st"
  by (simp add: save_recipe_info_def)

lemma viz_update_viz:
  "active_visualizations (update_viz j f st) =
     (case active_visualizations st j of None \<Rightarrow> active_visualizations st
      | Some v \<Rightarrow> (active_visualizations st)(j \<mapsto> f v))"
  by (simp add: update_viz_def split: option.split)

lemma publish_recorded_viz:
  "active_visualizations (snd (publish_recorded result j b st)) = active_visualizations st"
  by (simp add: publish_recorded_def then_do_def Let_def split: option.split)

lemma publish_recorded_ok:
  "rr_tileset_id result = Some t \<Longrightarrow> fst (publish_recorded result j b st) = None"
  by (simp add: publish_recorded_def then_do_def Let_def split: option.split)

lemma raster_fallback_body:
  assumes token: "mapbox_token env \<noteq> []"
    and on_disk: "file_path \<in> upload_dir st"
    and viz: "active_visualizations st job_id = Some v"
    and req: "viz_requested_format v = Some ''raster-array''"
    and client: "client_error env = None"
    and raster: "raster_outcome env = Returns r"
    and fail: "\<not> rr_success r"
  shows "orchestration_body env st file_path job_id tileset_id batch =
     (if rr_fallback_to_vector r \<or> rr_error_code r = Some 422 then
        vector_path env job_id tileset_id batch ''raster-array'' [RasterCall]
          (update_viz job_id
             (\<lambda>v. v\<lparr>viz_warning :=
                      Some (case rr_error r of None \<Rightarrow> ''Falling back to vector format'' | Some e \<Rightarrow> e),
                    viz_use_client_animation := True\<rparr>)
             st)
      else (None, publish_failed (rr_error r) job_id batch st, [RasterCall]))"
  using assms by (simp add: orchestration_body_def)


text \<open>
  Claim C2. A job with raster-array requested reaches the remote raster call (token
  configured, file on disk, client constructed) and the call returns a failure. If the
  failure has the fallback flag or the error code 422, the job is not marked failed: only
  a warning and the client-animation flag are set, and the vector call is made; when that
  call succeeds the Visualization Record ends completed, with actual format vector, a
  warning, the format-fallback flag and the client-animation flag. Otherwise the record
  ends failed with the remote's error as it came, and no vector call is made.
\<close>

theorem raster_failure_fallback:
  assumes token: "mapbox_token env \<noteq> []"
    and on_disk: "file_path \<in> upload_dir st"
    and viz: "active_visualizations st job_id = Some v"
    and req: "viz_requested_format v = Some ''raster-array''"
    and client: "client_error env = None"
    and raster: "raster_outcome env = Returns r"
    and fail: "\<not> rr_success r"
  shows "(rr_fallback_to_vector r \<or> rr_error_code r = Some 422 \<longrightarrow>
            orchestration_body env st file_path job_id tileset_id batch =
              vector_path env job_id tileset_id batch ''raster-array'' [RasterCall]
                (update_viz job_id
                   (\<lambda>v. v\<lparr>viz_warning :=
                            Some (case rr_error r of None \<Rightarrow> ''Falling back to vector format'' | Some e \<Rightarrow> e),
                          viz_use_client_animation := True\<rparr>)
                   st)
            \<and> snd (create_mapbox_tileset_background env st file_path job_id tileset_id vt batch)
                = [RasterCall, VectorCall]
            \<and> (\<forall>r2 t. vector_outcome env = Returns r2 \<and> rr_success r2 \<and> rr_tileset_id r2 = Some t \<longrightarrow>
                 (\<exists>v'. active_visualizations
                         (fst (create_mapbox_tileset_background env st file_path job_id tileset_id vt batch))
                         job_id = Some v'
                    \<and> viz_status v' = Some ''completed''
                    \<and> viz_actual_format v' = Some ''vector''
                    \<and> viz_warning v' \<noteq> None
                    \<and> viz_format_fallback v'
                    \<and> viz_use_client_animation v')))
     \<and> (\<not> rr_fallback_to_vector r \<and> rr_error_code r \<noteq> Some 422 \<longrightarrow>
            snd (create_mapbox_tileset_background env st file_path job_id tileset_id vt batch)
              = [RasterCall]
            \<and> (\<exists>v'. active_visualizations
                      (fst (create_mapbox_tileset_background env st file_path job_id tileset_id vt batch))
                      job_id = Some v'
                 \<and> viz_status v' = Some ''failed''
                 \<and> viz_error v' = rr_error r))"
proof -
  note body = raster_fallback_body [OF token on_disk viz req client raster fail, of tileset_id batch]
  let ?run = "create_mapbox_tileset_background env st file_path job_id tileset_id vt batch"
  let ?st1 = "update_viz job_id
                   (\<lambda>v. v\<lparr>viz_warning :=
                            Some (case rr_error r of None \<Rightarrow> ''Falling back to vector format'' | Some e \<Rightarrow> e),
                          viz_use_client_animation := True\<rparr>)
                   st"
  have fallback: "rr_fallback_to_vector r \<or> rr_error_code r = Some 422 \<longrightarrow>
      orchestration_body env st file_path job_id tileset_id batch =
        vector_path env job_id tileset_id batch ''raster-array'' [RasterCall] ?st1
      \<and> snd ?run = [RasterCall, VectorCall]
      \<and> (\<forall>r2 t. vector_outcome env = Returns r2 \<and> rr_success r2 \<and> rr_tileset_id r2 = Some t \<longrightarrow>
                 (\<exists>v'. active_visualizations (fst ?run) job_id = Some v'
                    \<and> viz_status v' = Some ''completed''
                    \<and> viz_actual_format v' = Some ''vector''
                    \<and> viz_warning v' \<noteq> None
                    \<and> viz_format_fallback v'
                    \<and> viz_use_client_animation v'))"
  proof
    assume fb: "rr_fallback_to_vector r \<or> rr_error_code r = Some 422"
    then have b: "orchestration_body env st file_path job_id tileset_id batch =
        vector_path env job_id tileset_id batch ''raster-array'' [RasterCall] ?st1"
      using body by simp
    have calls: "snd ?run = [RasterCall, VectorCall]"
      unfolding create_mapbox_tileset_background_def b vector_path_def
      by (simp add: Let_def split: remote_outcome.split prod.split option.split)
    have ok: "\<exists>v'. active_visualizations (fst ?run) job_id = Some v'
                    \<and> viz_status v' = Some ''completed''
                    \<and> viz_actual_format v' = Some ''vector''
                    \<and> viz_warning v' \<noteq> None
                    \<and> viz_format_fallback v'
                    \<and> viz_use_client_animation v'"
      if v: "vector_outcome env = Returns r2" "rr_success r2" "rr_tileset_id r2 = Some t" for r2 t
    proof -
      have v1: "active_visualizations ?st1 job_id \<noteq> None"
        using viz by (simp add: viz_update_viz)
      then obtain w where w: "active_visualizations ?st1 job_id = Some w" by blast
      have "fst (vector_success env r2 job_id tileset_id batch ''raster-array'' ?st1) = None"
        using v w by (simp add: vector_success_def then_do_def Let_def publish_recorded_ok
            split: prod.split option.split)
      moreover have "\<exists>v'. active_visualizations
            (snd (vector_success env r2 job_id tileset_id batch ''raster-array'' ?st1)) job_id = Some v'
                    \<and> viz_status v' = Some ''completed''
                    \<and> viz_actual_format v' = Some ''vector''
                    \<and> viz_warning v' \<noteq> None
                    \<and> viz_format_fallback v'
                    \<and> viz_use_client_animation v'"
        using v w publish_recorded_viz
        by (simp add: vector_success_def then_do_def Let_def viz_update_viz)
      ultimately show ?thesis
        unfolding create_mapbox_tileset_background_def b vector_path_def
        using v by (simp add: split_beta)
    qed
    from b calls ok show "orchestration_body env st file_path job_id tileset_id batch =
        vector_path env job_id tileset_id batch ''raster-array'' [RasterCall] ?st1
      \<and> snd ?run = [RasterCall, VectorCall]
      \<and> (\<forall>r2 t. vector_outcome env = Returns r2 \<and> rr_success r2 \<and> rr_tileset_id r2 = Some t \<longrightarrow>
                 (\<exists>v'. active_visualizations (fst ?run) job_id = Some v'
                    \<and> viz_status v' = Some ''completed''
                    \<and> viz_actual_format v' = Some ''vector''
                    \<and> viz_warning v' \<noteq> None
                    \<and> viz_format_fallback v'
                    \<and> viz_use_client_animation v'))"
      by blast
  qed
  have terminal: "\<not> rr_fallback_to_vector r \<and> rr_error_code r \<noteq> Some 422 \<longrightarrow>
            snd ?run = [RasterCall]
            \<and> (\<exists>v'. active_visualizations (fst ?run) job_id = Some v'
                 \<and> viz_status v' = Some ''failed''
                 \<and> viz_error v' = rr_error r)"
  proof
    assume "\<not> rr_fallback_to_vector r \<and> rr_error_code r \<noteq> Some 422"
    then have b: "orchestration_body env st file_path job_id tileset_id batch =
        (None, publish_failed (rr_error r) job_id batch st, [RasterCall])"
      using body by simp
    show "snd ?run = [RasterCall]
            \<and> (\<exists>v'. active_visualizations (fst ?run) job_id = Some v'
                 \<and> viz_status v' = Some ''failed''
                 \<and> viz_error v' = rr_error r)"
      unfolding create_mapbox_tileset_background_def b using viz
      by (simp add: publish_failed_def viz_update_viz)
  qed
  from fallback terminal show ?thesis by (rule conjI)
qed


theorem raster_failure_fallback_witness:
  "(\<exists>v'. active_visualizations
           (fst (create_mapbox_tileset_background
              (ex_env (Returns (ex_result_failed False (Some 422) ''Raster MTS needs a paid tier''))
                 (Returns ex_result_ok))
              ex_state_raster ''uploads/20240101120000_data.nc'' ''20240101120000''
              ''wx_data_01011200'' ''raster-array'' (Some ''b1'')))
           ''20240101120000'' = Some v'
      \<and> viz_status v' = Some ''completed'' \<and> viz_actual_format v' = Some ''vector''
      \<and> viz_warning v' \<noteq> None \<and> viz_format_fallback v' \<and> viz_use_client_animation v')
   \<and> snd (create_mapbox_tileset_background
              (ex_env (Returns (ex_result_failed False (Some 422) ''Raster MTS needs a paid tier''))
                 (Returns ex_result_ok))
              ex_state_raster ''uploads/20240101120000_data.nc'' ''20240101120000''
              ''wx_data_01011200'' ''raster-array'' (Some ''b1'')) = [RasterCall, VectorCall]
   \<and> (\<exists>v'. active_visualizations
           (fst (create_mapbox_tileset_background
              (ex_env (Returns (ex_result_failed False None ''Invalid token''))
                 (Returns ex_result_ok))
              ex_state_raster ''uploads/20240101120000_data.nc'' ''20240101120000''
              ''wx_data_01011200'' ''raster-array'' (Some ''b1'')))
           ''20240101120000'' = Some v'
      \<and> viz_status v' = Some ''failed'' \<and> viz_error v' = Some ''Invalid token'')
   \<and> snd (create_mapbox_tileset_background
              (ex_env (Returns (ex_result_failed False None ''Invalid token''))
                 (Returns ex_result_ok))
              ex_state_raster ''uploads/20240101120000_data.nc'' ''20240101120000''
              ''wx_data_01011200'' ''raster-array'' (Some ''b1'')) = [RasterCall]"
proof -
  let ?tier = "ex_result_failed False (Some 422) ''Raster MTS needs a paid tier''"
  let ?bad = "ex_result_failed False None ''Invalid token''"
  let ?v = "(ex_viz ''processing'')\<lparr>viz_file_path := ''uploads/20240101120000_data.nc'',
              viz_tileset_id := ''wx_data_01011200'',
              viz_requested_format := Some ''raster-array''\<rparr>"
  have on_disk: "''uploads/20240101120000_data.nc'' \<in> upload_dir ex_state_raster"
    by (simp add: ex_state_raster_def)
  have viz: "active_visualizations ex_state_raster ''20240101120000'' = Some ?v"
    by (simp add: ex_state_raster_def)
  have req: "viz_requested_format ?v = Some ''raster-array''"
    by simp
  have tier:
    "mapbox_token (ex_env (Returns ?tier) (Returns ex_result_ok)) \<noteq> []"
    "client_error (ex_env (Returns ?tier) (Returns ex_result_ok)) = None"
    "raster_outcome (ex_env (Returns ?tier) (Returns ex_result_ok)) = Returns ?tier"
    "\<not> rr_success ?tier"
    "rr_fallback_to_vector ?tier \<or> rr_error_code ?tier = Some 422"
    "vector_outcome (ex_env (Returns ?tier) (Returns ex_result_ok)) = Returns ex_result_ok
       \<and> rr_success ex_result_ok \<and> rr_tileset_id ex_result_ok = Some ''user.wx_data_01011200''"
    by (simp_all add: ex_env_def ex_result_failed_def ex_result_ok_def)
  have bad:
    "mapbox_token (ex_env (Returns ?bad) (Returns ex_result_ok)) \<noteq> []"
    "client_error (ex_env (Returns ?bad) (Returns ex_result_ok)) = None"
    "raster_outcome (ex_env (Returns ?bad) (Returns ex_result_ok)) = Returns ?bad"
    "\<not> rr_success ?bad"
    "\<not> rr_fallback_to_vector ?bad \<and> rr_error_code ?bad \<noteq> Some 422"
    "rr_error ?bad = Some ''Invalid token''"
    by (simp_all add: ex_env_def ex_result_failed_def)
  note t = raster_failure_fallback [OF tier(1) on_disk viz req tier(2) tier(3) tier(4),
      of "''wx_data_01011200''" "Some ''b1''" "''raster-array''"]
  note b = raster_failure_fallback [OF bad(1) on_disk viz req bad(2) bad(3) bad(4),
      of "''wx_data_01011200''" "Some ''b1''" "''raster-array''"]
  from t tier(5) tier(6) have 1: "\<exists>v'. active_visualizations
           (fst (create_mapbox_tileset_background (ex_env (Returns ?tier) (Returns ex_result_ok))
              ex_state_raster ''uploads/20240101120000_data.nc'' ''20240101120000''
              ''wx_data_01011200'' ''raster-array'' (Some ''b1'')))
           ''20240101120000'' = Some v'
      \<and> viz_status v' = Some ''completed'' \<and> viz_actual_format v' = Some ''vector''
      \<and> viz_warning v' \<noteq> None \<and> viz_format_fallback v' \<and> viz_use_client_animation v'"
    by blast
  from t tier(5) have 2: "snd (create_mapbox_tileset_background (ex_env (Returns ?tier) (Returns ex_result_ok))
              ex_state_raster ''uploads/20240101120000_data.nc'' ''20240101120000''
              ''wx_data_01011200'' ''raster-array'' (Some ''b1'')) = [RasterCall, VectorCall]"
    by blast
  from b bad(5) bad(6) have 3: "\<exists>v'. active_visualizations
           (fst (create_mapbox_tileset_background (ex_env (Returns ?bad) (Returns ex_result_ok))
              ex_state_raster ''uploads/20240101120000_data.nc'' ''20240101120000''
              ''wx_data_01011200'' ''raster-array'' (Some ''b1'')))
           ''20240101120000'' = Some v'
      \<and> viz_status v' = Some ''failed'' \<and> viz_error v' = Some ''Invalid token''"
    by metis
  from b bad(5) have 4: "snd (create_mapbox_tileset_background (ex_env (Returns ?bad) (Returns ex_result_ok))
              ex_state_raster ''uploads/20240101120000_data.nc'' ''20240101120000''
              ''wx_data_01011200'' ''raster-array'' (Some ''b1'')) = [RasterCall]"
    by blast
  from 1 2 3 4 show ?thesis by (intro conjI)
qed

lemma same_ids_refl: "same_ids s s"
  by (simp add: same_ids_def option.rel_refl)

lemma same_ids_trans: "same_ids s t \<Longrightarrow> same_ids t u \<Longrightarrow> same_ids s u"
  unfolding same_ids_def
proof (intro conjI allI)
  fix b
  assume a: "dom (active_visualizations s) = dom (active_visualizations t) \<and>
    dom (uploaded_files s) = dom (uploaded_files t) \<and>
    (\<forall>b. rel_option (\<lambda>x y. map bf_job_id (files x) = map bf_job_id (files y)) (batch_jobs s b) (batch_jobs t b))"
   and b: "dom (active_visualizations t) = dom (active_visualizations u) \<and>
    dom (uploaded_files t) = dom (uploaded_files u) \<and>
    (\<forall>b. rel_option (\<lambda>x y. map bf_job_id (files x) = map bf_job_id (files y)) (batch_jobs t b) (batch_jobs u b))"
  from a b have "rel_option (\<lambda>x y. map bf_job_id (files x) = map bf_job_id (files y)) (batch_jobs s b) (batch_jobs t b)"
    "rel_option (\<lambda>x y. map bf_job_id (files x) = map bf_job_id (files y)) (batch_jobs t b) (batch_jobs u b)"
    by blast+
  then show "rel_option (\<lambda>x y. map bf_job_id (files x) = map bf_job_id (files y)) (batch_jobs s b) (batch_jobs u b)"
    by (cases "batch_jobs s b"; cases "batch_jobs t b"; cases "batch_jobs u b") auto
qed auto

lemma same_ids_update_viz: "same_ids s (update_viz j f s)"
  by (auto simp: same_ids_def update_viz_def option.rel_refl split: option.split)

lemma same_ids_update_file: "same_ids s (update_file j f s)"
  by (auto simp: same_ids_def update_file_def option.rel_refl split: option.split)

lemma same_ids_save_recipe_info: "same_ids s (save_recipe_info env t s)"
  by (simp add: same_ids_def save_recipe_info_def option.rel_refl)

lemma mark_first_job_ids:
  "(\<And>e. bf_job_id (f e) = bf_job_id e) \<Longrightarrow> map bf_job_id (mark_first j f es) = map bf_job_id es"
  by (induction es) auto

lemma same_ids_update_batch_entry:
  "(\<And>e. bf_job_id (f e) = bf_job_id e) \<Longrightarrow> same_ids s (update_batch_entry b j f s)"
  by (auto simp: same_ids_def update_batch_entry_def option.rel_refl mark_first_job_ids
      split: option.split)

lemmas same_ids_step =
  same_ids_trans [OF _ same_ids_update_viz] same_ids_trans [OF _ same_ids_update_file]
  same_ids_trans [OF _ same_ids_save_recipe_info] same_ids_trans [OF _ same_ids_update_batch_entry]



lemma same_ids_exception_handler: "same_ids s (exception_handler msg j b s)"
  unfolding exception_handler_def by (intro same_ids_step same_ids_refl) simp

















section \<open>Batch upload: proofs\<close>












end
